theory Spec2Isabelle
  imports Main "HOL-Library.AList"
begin

section \<open>Python values\<close>

text \<open>
  A \<open>bytes\<close> object is a \<open>string\<close>: Isabelle's \<open>char\<close> is a byte, \<open>of_char\<close> reads its
  value and \<open>CHR 0xE9\<close> writes one that is not ASCII. A \<open>str\<close> is a list of Unicode code
  points (natural numbers), since the handler produces U+FFFD; \<open>ustr\<close> writes the
  literal \<open>"..."\<close>.
\<close>

type_synonym bytes = string
type_synonym str = "nat list"

definition ustr :: "string \<Rightarrow> str" where
  "ustr s = map of_char s"

text \<open>
  The values a \<open>Dict[str, Any]\<close> of the handler can hold. A \<open>dict\<close> is an association
  list in insertion order with \<open>str\<close> keys. A float is named by a decimal:
  \<open>Float negative m e\<close> is the double nearest to \<open>m * 10 ^ e\<close>, with its sign, so one
  float has several names; \<open>Infinite negative\<close> and \<open>NaN\<close> are the others. \<open>PObject\<close> is
  any other object (an application, a router, a callable), known by its class name
  only.
\<close>

datatype pyfloat = Float bool nat int | Infinite bool | NaN

datatype pyval =
    PNone
  | PBool bool
  | PInt int
  | PFloat pyfloat
  | PStr str
  | PBytes bytes
  | PList "pyval list"
  | PTuple "pyval list"
  | PDict "(str \<times> pyval) list"
  | PObject string

type_synonym dict = "(str \<times> pyval) list"

text \<open>\<open>d.get(key)\<close>: the value, or \<open>None\<close> when the key is missing.\<close>

definition dict_get :: "dict \<Rightarrow> str \<Rightarrow> pyval" where
  "dict_get d key = (case map_of d key of None \<Rightarrow> PNone | Some v \<Rightarrow> v)"

section \<open>\<open>_normalize_scope\<close>\<close>

text \<open>
  \<^verbatim>\<open>
  def _normalize_scope(scope):
      serialisable = {}
      for key, value in scope.items():
          if key in {"headers", "raw_headers", "app", "router", "endpoint", "state"}:
              continue
          if isinstance(value, (str, int, float, bool)) or value is None:
              serialisable[key] = value
          elif isinstance(value, (list, tuple)):
              if all(isinstance(item, (str, int, float, bool, type(None))) for item in value):
                  serialisable[key] = list(value)
      return serialisable
  \<close>
  \<open>serialisable[key] = value\<close> is \<open>AList.update\<close>: it replaces the value of a key
  that is present and appends a new key at the end.
\<close>

definition skipped_keys :: "str list" where
  "skipped_keys =
     map ustr [''headers'', ''raw_headers'', ''app'', ''router'', ''endpoint'', ''state'']"

fun is_scalar :: "pyval \<Rightarrow> bool" where
  "is_scalar PNone = True"
| "is_scalar (PBool _) = True"
| "is_scalar (PInt _) = True"
| "is_scalar (PFloat _) = True"
| "is_scalar (PStr _) = True"
| "is_scalar _ = False"

fun normalize_scope_loop :: "dict \<Rightarrow> dict \<Rightarrow> dict" where
  "normalize_scope_loop [] serialisable = serialisable"
| "normalize_scope_loop ((key, value) # rest) serialisable =
     (if key \<in> set skipped_keys then normalize_scope_loop rest serialisable
      else if is_scalar value
        then normalize_scope_loop rest (AList.update key value serialisable)
      else (case value of
              PList items \<Rightarrow>
                if list_all is_scalar items
                then normalize_scope_loop rest (AList.update key (PList items) serialisable)
                else normalize_scope_loop rest serialisable
            | PTuple items \<Rightarrow>
                if list_all is_scalar items
                then normalize_scope_loop rest (AList.update key (PList items) serialisable)
                else normalize_scope_loop rest serialisable
            | _ \<Rightarrow> normalize_scope_loop rest serialisable))"

definition normalize_scope :: "dict \<Rightarrow> dict" where
  "normalize_scope scope = normalize_scope_loop scope []"

text \<open>What one entry of the scope becomes: the value kept for it, if any.\<close>

definition kept :: "str \<Rightarrow> pyval \<Rightarrow> pyval option" where
  "kept key value =
     (if key \<in> set skipped_keys then None
      else if is_scalar value then Some value
      else (case value of
              PList items \<Rightarrow> if list_all is_scalar items then Some (PList items) else None
            | PTuple items \<Rightarrow> if list_all is_scalar items then Some (PList items) else None
            | _ \<Rightarrow> None))"

text \<open>
  The specification's reading of the snapshot, in its words: an entry is retained when
  its value is a primitive scalar or a homogeneous sequence of such scalars (all of one
  type), and its key is not one of the redundant ones.
\<close>

fun type_of :: "pyval \<Rightarrow> string" where
  "type_of PNone = ''NoneType''"
| "type_of (PBool _) = ''bool''"
| "type_of (PInt _) = ''int''"
| "type_of (PFloat _) = ''float''"
| "type_of (PStr _) = ''str''"
| "type_of (PBytes _) = ''bytes''"
| "type_of (PList _) = ''list''"
| "type_of (PTuple _) = ''tuple''"
| "type_of (PDict _) = ''dict''"
| "type_of (PObject c) = c"

definition homogeneous :: "pyval list \<Rightarrow> bool" where
  "homogeneous items = (length (remdups (map type_of items)) \<le> 1)"

definition spec_retained :: "str \<Rightarrow> pyval \<Rightarrow> bool" where
  "spec_retained key value =
     (key \<notin> set skipped_keys \<and>
      (is_scalar value \<or>
       (case value of
          PList items \<Rightarrow> list_all is_scalar items \<and> homogeneous items
        | PTuple items \<Rightarrow> list_all is_scalar items \<and> homogeneous items
        | _ \<Rightarrow> False)))"

section \<open>The runtime: codecs\<close>

text \<open>
  The handler calls \<open>bytes.decode(encoding, errors="replace")\<close>. A decoder is modelled
  by the units it finds in the input: \<open>Some c\<close> for a decoded code point, \<open>None\<close> for
  a stretch of bytes it cannot decode. With \<open>errors="replace"\<close> each such stretch
  becomes U+FFFD; with \<open>errors="strict"\<close> (the default) one of them makes the call
  fail.
\<close>

definition decode_replace :: "nat option list \<Rightarrow> str" where
  "decode_replace units = map (\<lambda>unit. case unit of None \<Rightarrow> 0xFFFD | Some c \<Rightarrow> c) units"

definition decode_strict :: "nat option list \<Rightarrow> str option" where
  "decode_strict units = (if None \<in> set units then None else Some (map the units))"

definition latin1_units :: "nat list \<Rightarrow> nat option list" where
  "latin1_units s = map Some s"

definition ascii_units :: "nat list \<Rightarrow> nat option list" where
  "ascii_units s = map (\<lambda>ch. if ch < 0x80 then Some ch else None) s"

text \<open>
  CPython's UTF-8 decoder (\<open>Objects/stringlib/codecs.h\<close>, \<open>utf8_decode\<close>), on the byte
  values. \<open>utf8_unit ch s\<close> reads the unit that starts with the byte \<open>ch\<close> and gives
  it with the number of bytes of \<open>s\<close> that belong to it. An invalid start byte is one
  unit; a lead byte whose continuation is wrong is a unit that ends before the wrong
  byte; a sequence cut off by the end of the data is one unit. Overlong forms
  (\<open>C0\<close>, \<open>C1\<close>, \<open>E0 80..9F\<close>, \<open>F0 80..8F\<close>), surrogates (\<open>ED A0..BF\<close>) and
  values above U+10FFFF (\<open>F4 90..\<close>, \<open>F5..\<close>) are refused.
\<close>

definition is_continuation :: "nat \<Rightarrow> bool" where
  "is_continuation ch = (0x80 \<le> ch \<and> ch < 0xC0)"

definition utf8_unit :: "nat \<Rightarrow> nat list \<Rightarrow> nat option \<times> nat" where
  "utf8_unit ch s =
     (if ch < 0x80 then (Some ch, 0)
      else if ch < 0xC2 then (None, 0)
      else if ch < 0xE0 then
        (case s of
           [] \<Rightarrow> (None, 0)
         | ch2 # s2 \<Rightarrow>
             if is_continuation ch2 then (Some ((ch - 0xC0) * 0x40 + (ch2 - 0x80)), 1)
             else (None, 0))
      else if ch < 0xF0 then
        (case s of
           [] \<Rightarrow> (None, 0)
         | ch2 # s2 \<Rightarrow>
             if \<not> is_continuation ch2 \<or> (if ch2 < 0xA0 then ch = 0xE0 else ch = 0xED)
             then (None, 0)
             else (case s2 of
                     [] \<Rightarrow> (None, 1)
                   | ch3 # s3 \<Rightarrow>
                       if is_continuation ch3
                       then (Some ((ch - 0xE0) * 0x1000 + (ch2 - 0x80) * 0x40 + (ch3 - 0x80)), 2)
                       else (None, 1)))
      else if ch < 0xF5 then
        (case s of
           [] \<Rightarrow> (None, 0)
         | ch2 # s2 \<Rightarrow>
             if \<not> is_continuation ch2 \<or> (if ch2 < 0x90 then ch = 0xF0 else ch = 0xF4)
             then (None, 0)
             else (case s2 of
                     [] \<Rightarrow> (None, 1)
                   | ch3 # s3 \<Rightarrow>
                       if \<not> is_continuation ch3 then (None, 1)
                       else (case s3 of
                               [] \<Rightarrow> (None, 2)
                             | ch4 # s4 \<Rightarrow>
                                 if is_continuation ch4
                                 then (Some ((ch - 0xF0) * 0x40000 + (ch2 - 0x80) * 0x1000
                                             + (ch3 - 0x80) * 0x40 + (ch4 - 0x80)), 3)
                                 else (None, 2))))
      else (None, 0))"

fun utf8_units :: "nat list \<Rightarrow> nat option list" where
  "utf8_units [] = []"
| "utf8_units (ch # s) =
     (case utf8_unit ch s of (unit, more) \<Rightarrow> unit # utf8_units (drop more s))"

definition byte_values :: "bytes \<Rightarrow> nat list" where
  "byte_values raw = map of_char raw"

text \<open>\<open>value.decode("latin-1", errors="replace")\<close>: every byte is a code point.\<close>

definition latin1_decode :: "bytes \<Rightarrow> str" where
  "latin1_decode raw = decode_replace (latin1_units (byte_values raw))"

definition utf8_replace :: "bytes \<Rightarrow> str" where
  "utf8_replace raw = decode_replace (utf8_units (byte_values raw))"

text \<open>
  Python's exceptions, as far as the handler and the functions it calls raise them.
  \<open>UnicodeError\<close>, \<open>UnicodeDecodeError\<close> and \<open>JSONDecodeError\<close> are \<open>ValueError\<close>s and
  \<open>RecursionError\<close> is a \<open>RuntimeError\<close>; only \<open>LookupError\<close> is a \<open>LookupError\<close>, and
  all of them are \<open>Exception\<close>s.
\<close>

datatype exn =
    LookupError | UnicodeError | UnicodeDecodeError | JSONDecodeError | RecursionError
  | TypeError | ValueError

text \<open>
  Four entries of CPython's codec registry, under their canonical names. \<open>undefined\<close>
  (\<open>Lib/encodings/undefined.py\<close>) is the codec whose decoder raises
  \<open>UnicodeError("undefined encoding")\<close> whatever the input and the error handler. A name
  the registry does not know raises \<open>LookupError\<close>; the media types and parameters of
  a Content-Type header (\<open>application/json\<close>, \<open>text/plain; charset=latin-1\<close>) are
  such names. The registry's other codecs and its aliases are not modelled: the
  theorems on the handler are stated for any \<open>decode\<close>, and this one is the instance
  they are run on.
\<close>

datatype codec = Utf8 | Latin1 | Ascii | Undefined

definition codec_lookup :: "str \<Rightarrow> codec option" where
  "codec_lookup encoding =
     (if encoding = ustr ''utf-8'' then Some Utf8
      else if encoding = ustr ''latin-1'' then Some Latin1
      else if encoding = ustr ''ascii'' then Some Ascii
      else if encoding = ustr ''undefined'' then Some Undefined
      else None)"

fun codec_units :: "codec \<Rightarrow> nat list \<Rightarrow> exn + nat option list" where
  "codec_units Utf8 s = Inr (utf8_units s)"
| "codec_units Latin1 s = Inr (latin1_units s)"
| "codec_units Ascii s = Inr (ascii_units s)"
| "codec_units Undefined s = Inl UnicodeError"

definition bytes_decode :: "str \<Rightarrow> bytes \<Rightarrow> exn + str" where
  "bytes_decode encoding raw =
     (case codec_lookup encoding of
        None \<Rightarrow> Inl LookupError
      | Some c \<Rightarrow> map_sum id decode_replace (codec_units c (byte_values raw)))"

section \<open>The runtime: base64\<close>

text \<open>
  \<open>base64.b64encode\<close> (\<open>binascii.b2a_base64\<close>): three bytes become four characters
  of the table, six bits each; one or two bytes left over are padded with \<open>=\<close>.
\<close>

definition table_b2a_base64 :: string where
  "table_b2a_base64 = ''ABCDEFGHIJKLMNOPQRSTUVWXYZabcdefghijklmnopqrstuvwxyz0123456789+/''"

definition b2a :: "nat \<Rightarrow> char" where
  "b2a i = table_b2a_base64 ! i"

text \<open>The code of the table's character for each of the 64 values.\<close>

definition b2a_value :: "nat \<Rightarrow> nat" where
  "b2a_value i =
     (if i < 26 then 65 + i else if i < 52 then 71 + i else if i < 62 then i - 4
      else if i = 62 then 43 else 47)"

fun b64encode :: "bytes \<Rightarrow> bytes" where
  "b64encode [] = []"
| "b64encode [a] =
     [b2a (of_char a div 4), b2a (of_char a mod 4 * 16), CHR ''='', CHR ''='']"
| "b64encode [a, b] =
     [b2a (of_char a div 4), b2a (of_char a mod 4 * 16 + of_char b div 16),
      b2a (of_char b mod 16 * 4), CHR ''='']"
| "b64encode (a # b # c # rest) =
     [b2a (of_char a div 4), b2a (of_char a mod 4 * 16 + of_char b div 16),
      b2a (of_char b mod 16 * 4 + of_char c div 64), b2a (of_char c mod 64)]
     @ b64encode rest"

text \<open>
  Standard base64 decoding (RFC 4648, section 4) of a \<open>str\<close>, the way a reader of the
  response undoes the encoding: four characters give three bytes, a last group may end
  in \<open>=\<close> or \<open>==\<close>, and anything else is refused.
\<close>

definition a2b :: "nat \<Rightarrow> nat option" where
  "a2b c =
     (if 65 \<le> c \<and> c \<le> 90 then Some (c - 65)
      else if 97 \<le> c \<and> c \<le> 122 then Some (c - 71)
      else if 48 \<le> c \<and> c \<le> 57 then Some (c + 4)
      else if c = 43 then Some 62
      else if c = 47 then Some 63
      else None)"

fun b64decode :: "str \<Rightarrow> bytes option" where
  "b64decode [] = Some []"
| "b64decode (c0 # c1 # c2 # c3 # rest) =
     (case (a2b c0, a2b c1) of
        (Some i0, Some i1) \<Rightarrow>
          if rest = [] \<and> c2 = 61 \<and> c3 = 61 then Some [char_of (i0 * 4 + i1 div 16)]
          else (case a2b c2 of
                  None \<Rightarrow> None
                | Some i2 \<Rightarrow>
                    if rest = [] \<and> c3 = 61
                    then Some [char_of (i0 * 4 + i1 div 16), char_of (i1 mod 16 * 16 + i2 div 4)]
                    else (case (a2b c3, b64decode rest) of
                            (Some i3, Some more) \<Rightarrow>
                              Some (char_of (i0 * 4 + i1 div 16)
                                    # char_of (i1 mod 16 * 16 + i2 div 4)
                                    # char_of (i2 mod 4 * 64 + i3) # more)
                          | _ \<Rightarrow> None))
      | _ \<Rightarrow> None)"
| "b64decode _ = None"

section \<open>The runtime: query strings\<close>

text \<open>
  \<open>urllib.parse.parse_qsl(qs, keep_blank_values=True)\<close>, with its defaults
  \<open>separator='&'\<close>, \<open>encoding='utf-8'\<close>, \<open>errors='replace'\<close>:
  \<^verbatim>\<open>
  for name_value in qs.split(separator):
      if not name_value and not strict_parsing:
          continue
      nv = name_value.split('=', 1)
      if len(nv) != 2:
          nv.append('')          # keep_blank_values
      name = unquote(nv[0].replace('+', ' '))
      value = unquote(nv[1].replace('+', ' '))
      r.append((name, value))
  \<close>
  The characters are written by their codes: 38 is \<open>&\<close>, 61 is \<open>=\<close>, 43 is \<open>+\<close>, 32 is
  the space and 37 is \<open>%\<close>. \<open>parse_field\<close> is the body of the loop: what one
  \<open>name_value\<close> adds to the list.
\<close>

fun split :: "nat \<Rightarrow> str \<Rightarrow> str list" where
  "split sep [] = [[]]"
| "split sep (c # cs) =
     (if c = sep then [] # split sep cs
      else (case split sep cs of [] \<Rightarrow> [[c]] | piece # pieces \<Rightarrow> (c # piece) # pieces))"

definition split_once :: "nat \<Rightarrow> str \<Rightarrow> str \<times> str" where
  "split_once sep s = (takeWhile (\<lambda>c. c \<noteq> sep) s, drop 1 (dropWhile (\<lambda>c. c \<noteq> sep) s))"

definition replace_plus :: "str \<Rightarrow> str" where
  "replace_plus s = map (\<lambda>c. if c = 43 then 32 else c) s"

text \<open>
  \<open>unquote\<close> returns a string without \<open>%\<close> as it is. Otherwise every run of ASCII
  characters goes through \<open>unquote_to_bytes\<close>, where \<open>%\<close> and two hexadecimal digits
  become one byte, and is decoded as UTF-8 with replacement; the characters outside
  ASCII stay.
\<close>

definition hex_digit :: "nat \<Rightarrow> nat option" where
  "hex_digit c =
     (if 48 \<le> c \<and> c \<le> 57 then Some (c - 48)
      else if 65 \<le> c \<and> c \<le> 70 then Some (c - 55)
      else if 97 \<le> c \<and> c \<le> 102 then Some (c - 87)
      else None)"

fun unquote_to_bytes :: "nat list \<Rightarrow> nat list" where
  "unquote_to_bytes [] = []"
| "unquote_to_bytes (c # cs) =
     (if c = 37 then
        (case cs of
           h1 # h2 # rest \<Rightarrow>
             (case (hex_digit h1, hex_digit h2) of
                (Some a, Some b) \<Rightarrow> (16 * a + b) # unquote_to_bytes rest
              | _ \<Rightarrow> c # unquote_to_bytes cs)
         | _ \<Rightarrow> c # unquote_to_bytes cs)
      else c # unquote_to_bytes cs)"

definition unquote_run :: "str \<Rightarrow> str" where
  "unquote_run run = decode_replace (utf8_units (unquote_to_bytes run))"

fun unquote_runs :: "str \<Rightarrow> str \<Rightarrow> str" where
  "unquote_runs run [] = unquote_run (rev run)"
| "unquote_runs run (c # cs) =
     (if c < 0x80 then unquote_runs (c # run) cs
      else unquote_run (rev run) @ c # unquote_runs [] cs)"

definition unquote :: "str \<Rightarrow> str" where
  "unquote s = (if 37 \<notin> set s then s else unquote_runs [] s)"

definition parse_field :: "str \<Rightarrow> (str \<times> str) list" where
  "parse_field name_value =
     (if name_value = [] then []
      else (case split_once 61 name_value of
              (name, v) \<Rightarrow> [(unquote (replace_plus name), unquote (replace_plus v))]))"

definition parse_qsl :: "str \<Rightarrow> (str \<times> str) list" where
  "parse_qsl qs = concat (map parse_field (split 38 qs))"

text \<open>
  The query string that lists pairs as \<open>k=v\<close> joined by \<open>&\<close>, and the strings that
  stand for themselves in it: those without \<open>&\<close>, \<open>=\<close>, \<open>+\<close> and \<open>%\<close>.
\<close>

fun query_of_pairs :: "(str \<times> str) list \<Rightarrow> str" where
  "query_of_pairs [] = []"
| "query_of_pairs [(k, v)] = k @ 61 # v"
| "query_of_pairs ((k, v) # p # ps) = k @ 61 # v @ 38 # query_of_pairs (p # ps)"

definition plain :: "str \<Rightarrow> bool" where
  "plain s = (\<forall>c \<in> set s. c \<noteq> 38 \<and> c \<noteq> 61 \<and> c \<noteq> 43 \<and> c \<noteq> 37)"

section \<open>The runtime: JSON\<close>

text \<open>
  \<open>Request.json()\<close> is \<open>json.loads(body)\<close>. The model cuts the text into tokens, as
  the scanner of \<open>Modules/_json.c\<close> reads them, and runs the grammar over the tokens with
  a stack of the arrays and objects that are open.

  A number is the longest run of the characters a number is written with; it is a
  number when the whole run matches \<open>-?(0|[1-9][0-9]*)(\.[0-9]+)?([eE][-+]?[0-9]+)?\<close>
  (when the scanner's match is shorter than the run, the character after the match is
  no delimiter, and the text is refused as well). Without fraction and exponent it is
  an \<open>int\<close>, otherwise a \<open>float\<close>.
\<close>

datatype token =
    LBrace | RBrace | LBracket | RBracket | Colon | Comma
  | TString str | TInt int | TFloat pyfloat | TTrue | TFalse | TNull

definition is_space :: "nat \<Rightarrow> bool" where
  "is_space c = (c = 32 \<or> c = 9 \<or> c = 10 \<or> c = 13)"

definition is_digit :: "nat \<Rightarrow> bool" where
  "is_digit c = (48 \<le> c \<and> c \<le> 57)"

definition number_char :: "nat \<Rightarrow> bool" where
  "number_char c =
     (is_digit c \<or> c = of_char CHR ''-'' \<or> c = of_char CHR ''+'' \<or> c = of_char CHR ''.''
      \<or> c = of_char CHR ''e'' \<or> c = of_char CHR ''E'')"

definition digits_value :: "nat list \<Rightarrow> nat" where
  "digits_value digits = foldl (\<lambda>n d. 10 * n + (d - 48)) 0 digits"

definition number_token :: "str \<Rightarrow> token option" where
  "number_token literal =
     (let negative = (take 1 literal = ustr ''-'');
          unsigned = (if negative then drop 1 literal else literal);
          integer = takeWhile is_digit unsigned;
          after_integer = dropWhile is_digit unsigned;
          has_frac = (take 1 after_integer = ustr ''.'');
          frac = (if has_frac then takeWhile is_digit (drop 1 after_integer) else []);
          after_frac = (if has_frac then dropWhile is_digit (drop 1 after_integer)
                        else after_integer);
          has_exp = (take 1 after_frac = ustr ''e'' \<or> take 1 after_frac = ustr ''E'');
          exp_negative = (take 1 (drop 1 after_frac) = ustr ''-'');
          exp_signed = (exp_negative \<or> take 1 (drop 1 after_frac) = ustr ''+'');
          exp_digits = (if exp_signed then drop 2 after_frac else drop 1 after_frac)
      in if integer = [] \<or> (take 1 integer = ustr ''0'' \<and> length integer > 1) then None
         else if has_frac \<and> frac = [] then None
         else if has_exp then
           (if exp_digits = [] \<or> \<not> list_all is_digit exp_digits then None
            else Some (TFloat (Float negative (digits_value (integer @ frac))
                         ((if exp_negative then - 1 else 1) * int (digits_value exp_digits)
                          - int (length frac)))))
         else if after_frac \<noteq> [] then None
         else if has_frac
           then Some (TFloat (Float negative (digits_value (integer @ frac))
                        (- int (length frac))))
         else Some (TInt ((if negative then - 1 else 1) * int (digits_value integer))))"

text \<open>
  In a string a backslash starts an escape: one of the characters
  \<open>" \ / b f n r t\<close>, or \<open>u\<close> and four hexadecimal digits; a high surrogate followed
  by the escape of a low surrogate is the one character of the pair. A control
  character in a string is refused.
\<close>

definition simple_escape :: "nat \<Rightarrow> nat option" where
  "simple_escape c =
     (if c = of_char CHR 0x22 \<or> c = of_char CHR 0x5C \<or> c = of_char CHR ''/'' then Some c
      else if c = of_char CHR ''b'' then Some 8
      else if c = of_char CHR ''f'' then Some 12
      else if c = of_char CHR ''n'' then Some 10
      else if c = of_char CHR ''r'' then Some 13
      else if c = of_char CHR ''t'' then Some 9
      else None)"

definition hex4 :: "str \<Rightarrow> nat option" where
  "hex4 s =
     (case map hex_digit s of
        [Some a, Some b, Some c, Some d] \<Rightarrow> Some (((a * 16 + b) * 16 + c) * 16 + d)
      | _ \<Rightarrow> None)"

definition surrogate_pair :: "nat \<Rightarrow> str \<Rightarrow> nat option" where
  "surrogate_pair high cs =
     (if 0xD800 \<le> high \<and> high \<le> 0xDBFF \<and> take 2 cs = [of_char CHR 0x5C, of_char CHR ''u'']
      then (case hex4 (take 4 (drop 2 cs)) of
              None \<Rightarrow> None
            | Some low \<Rightarrow>
                if 0xDC00 \<le> low \<and> low \<le> 0xDFFF
                then Some (0x10000 + (high - 0xD800) * 0x400 + (low - 0xDC00))
                else None)
      else None)"

text \<open>
  What the scanner does at a character \<open>c\<close> between two tokens, the text after it being
  \<open>cs\<close>: it skips white space, reads a token and some characters of \<open>cs\<close> with it, opens
  a string, or refuses the text. \<open>json_token\<close> reads the tokens of the JSON grammar
  (RFC 8259); \<open>python_token\<close> also reads \<open>NaN\<close>, \<open>Infinity\<close> and \<open>-Infinity\<close> as floats,
  which Python's scanner does and the JSON grammar does not.
\<close>

datatype action = Skip | Emit token nat | OpenString | Refuse

definition json_token :: "nat \<Rightarrow> str \<Rightarrow> action" where
  "json_token c cs =
     (if is_space c then Skip
      else if c = of_char CHR ''{'' then Emit LBrace 0
      else if c = of_char CHR ''}'' then Emit RBrace 0
      else if c = of_char CHR ''['' then Emit LBracket 0
      else if c = of_char CHR '']'' then Emit RBracket 0
      else if c = of_char CHR '':'' then Emit Colon 0
      else if c = of_char CHR '','' then Emit Comma 0
      else if c = of_char CHR 0x22 then OpenString
      else if c # take 3 cs = ustr ''null'' then Emit TNull 3
      else if c # take 3 cs = ustr ''true'' then Emit TTrue 3
      else if c # take 4 cs = ustr ''false'' then Emit TFalse 4
      else if c = of_char CHR ''-'' \<or> is_digit c then
        (case number_token (c # takeWhile number_char cs) of
           None \<Rightarrow> Refuse
         | Some t \<Rightarrow> Emit t (length (takeWhile number_char cs)))
      else Refuse)"

definition python_token :: "nat \<Rightarrow> str \<Rightarrow> action" where
  "python_token c cs =
     (if c # take 2 cs = ustr ''NaN'' then Emit (TFloat NaN) 2
      else if c # take 7 cs = ustr ''Infinity'' then Emit (TFloat (Infinite False)) 7
      else if c # take 8 cs = ustr ''-Infinity'' then Emit (TFloat (Infinite True)) 8
      else json_token c cs)"

datatype lexing = Between | InString str | InEscape str

definition emit :: "token \<Rightarrow> token list option \<Rightarrow> token list option" where
  "emit t rest = map_option (Cons t) rest"

text \<open>\<open>lex constants\<close> cuts a text into tokens, with Python's constants or without.\<close>

fun lex :: "bool \<Rightarrow> lexing \<Rightarrow> str \<Rightarrow> token list option" where
  "lex constants Between [] = Some []"
| "lex constants (InString acc) [] = None"
| "lex constants (InEscape acc) [] = None"
| "lex constants Between (c # cs) =
     (case (if constants then python_token c cs else json_token c cs) of
        Skip \<Rightarrow> lex constants Between cs
      | Emit t n \<Rightarrow> emit t (lex constants Between (drop n cs))
      | OpenString \<Rightarrow> lex constants (InString []) cs
      | Refuse \<Rightarrow> None)"
| "lex constants (InString acc) (c # cs) =
     (if c = of_char CHR 0x22 then emit (TString (rev acc)) (lex constants Between cs)
      else if c = of_char CHR 0x5C then lex constants (InEscape acc) cs
      else if c < 0x20 then None
      else lex constants (InString (c # acc)) cs)"
| "lex constants (InEscape acc) (c # cs) =
     (case simple_escape c of
        Some ch \<Rightarrow> lex constants (InString (ch # acc)) cs
      | None \<Rightarrow>
          if c = of_char CHR ''u'' then
            (case hex4 (take 4 cs) of
               None \<Rightarrow> None
             | Some uni \<Rightarrow>
                 (case surrogate_pair uni (drop 4 cs) of
                    Some joined \<Rightarrow> lex constants (InString (joined # acc)) (drop 10 cs)
                  | None \<Rightarrow> lex constants (InString (uni # acc)) (drop 4 cs)))
          else None)"

text \<open>
  The grammar. A key given twice keeps its first place and its last value, as in a
  Python dict.
\<close>

datatype frame = InArray "pyval list" | InObject "(str \<times> pyval) list" | AtKey str

datatype expect = Value | ValueOrEnd | Key | KeyOrEnd | ColonNext | Done pyval

definition start_value :: "frame list \<Rightarrow> token \<Rightarrow> (frame list \<times> expect) option" where
  "start_value stack t =
     (case t of
        TNull \<Rightarrow> Some (stack, Done PNone)
      | TTrue \<Rightarrow> Some (stack, Done (PBool True))
      | TFalse \<Rightarrow> Some (stack, Done (PBool False))
      | TInt i \<Rightarrow> Some (stack, Done (PInt i))
      | TFloat f \<Rightarrow> Some (stack, Done (PFloat f))
      | TString s \<Rightarrow> Some (stack, Done (PStr s))
      | LBracket \<Rightarrow> Some (InArray [] # stack, ValueOrEnd)
      | LBrace \<Rightarrow> Some (InObject [] # stack, KeyOrEnd)
      | _ \<Rightarrow> None)"

definition close_value :: "pyval \<Rightarrow> frame list \<Rightarrow> token \<Rightarrow> (frame list \<times> expect) option" where
  "close_value v stack t =
     (case stack of
        InArray items # below \<Rightarrow>
          (case t of
             Comma \<Rightarrow> Some (InArray (v # items) # below, Value)
           | RBracket \<Rightarrow> Some (below, Done (PList (rev (v # items))))
           | _ \<Rightarrow> None)
      | AtKey k # InObject members # below \<Rightarrow>
          (case t of
             Comma \<Rightarrow> Some (InObject (AList.update k v members) # below, Key)
           | RBrace \<Rightarrow> Some (below, Done (PDict (AList.update k v members)))
           | _ \<Rightarrow> None)
      | _ \<Rightarrow> None)"

definition step :: "frame list \<Rightarrow> expect \<Rightarrow> token \<Rightarrow> (frame list \<times> expect) option" where
  "step stack e t =
     (case e of
        Value \<Rightarrow> start_value stack t
      | ValueOrEnd \<Rightarrow>
          (case (t, stack) of
             (RBracket, InArray items # below) \<Rightarrow> Some (below, Done (PList (rev items)))
           | _ \<Rightarrow> start_value stack t)
      | Key \<Rightarrow> (case t of TString k \<Rightarrow> Some (AtKey k # stack, ColonNext) | _ \<Rightarrow> None)
      | KeyOrEnd \<Rightarrow>
          (case (t, stack) of
             (TString k, _) \<Rightarrow> Some (AtKey k # stack, ColonNext)
           | (RBrace, InObject members # below) \<Rightarrow> Some (below, Done (PDict members))
           | _ \<Rightarrow> None)
      | ColonNext \<Rightarrow> (case t of Colon \<Rightarrow> Some (stack, Value) | _ \<Rightarrow> None)
      | Done v \<Rightarrow> close_value v stack t)"

fun parse :: "frame list \<Rightarrow> expect \<Rightarrow> token list \<Rightarrow> pyval option" where
  "parse stack e [] = (case (stack, e) of ([], Done v) \<Rightarrow> Some v | _ \<Rightarrow> None)"
| "parse stack e (t # ts) =
     (case step stack e t of None \<Rightarrow> None | Some (stack', e') \<Rightarrow> parse stack' e' ts)"

definition scan :: "bool \<Rightarrow> str \<Rightarrow> pyval option" where
  "scan constants s =
     (case lex constants Between s of None \<Rightarrow> None | Some tokens \<Rightarrow> parse [] Value tokens)"

text \<open>
  \<open>json.loads\<close> of \<open>bytes\<close> decodes them first, as UTF-8 after a byte order mark of
  UTF-8, which it drops. Not modelled: \<open>detect_encoding\<close> reads a body that starts with
  a byte order mark of UTF-16 or UTF-32, or has a zero among its first bytes, as UTF-16
  or UTF-32; the decoding lets encoded surrogates pass; and the scanner gives up with
  \<open>RecursionError\<close> on deep nesting and \<open>ValueError\<close> on an integer of more than 4300
  digits. The theorems on the handler are stated for any \<open>loads\<close>, and this one is the
  instance they are run on.
\<close>

definition json_loads :: "bytes \<Rightarrow> exn + pyval" where
  "json_loads raw =
     (case decode_strict (utf8_units (byte_values
             (if take 3 raw = [CHR 0xEF, CHR 0xBB, CHR 0xBF] then drop 3 raw else raw))) of
        None \<Rightarrow> Inl UnicodeDecodeError
      | Some s \<Rightarrow> (case scan True s of None \<Rightarrow> Inl JSONDecodeError | Some v \<Rightarrow> Inr v))"

text \<open>
  Valid JSON, in the specification's words: a text in UTF-8 that the grammar of
  RFC 8259 derives.
\<close>

definition valid_json :: "bytes \<Rightarrow> bool" where
  "valid_json raw =
     (case decode_strict (utf8_units (byte_values raw)) of
        None \<Rightarrow> False
      | Some s \<Rightarrow> scan False s \<noteq> None)"

text \<open>
  The runtime the handler runs on: \<open>decode encoding raw\<close> is
  \<open>raw.decode(encoding, errors="replace")\<close> and \<open>loads raw\<close> is \<open>json.loads(raw)\<close>.
\<close>

record runtime =
  decode :: "str \<Rightarrow> bytes \<Rightarrow> exn + str"
  loads :: "bytes \<Rightarrow> exn + pyval"

definition cpython :: runtime where
  "cpython = \<lparr>decode = bytes_decode, loads = json_loads\<rparr>"

section \<open>\<open>_headers_to_list\<close>\<close>

text \<open>
  \<^verbatim>\<open>
  def _headers_to_list(headers):
      def _to_str(value):
          if isinstance(value, bytes):
              return value.decode("latin-1", errors="replace")
          return str(value)
      if hasattr(headers, "raw"):
          items = headers.raw
      elif hasattr(headers, "multi_items"):
          items = headers.multi_items()
      elif hasattr(headers, "items"):
          items = headers.items()
      else:
          items = []
      return [{"name": _to_str(name), "value": _to_str(value)} for name, value in items]
  \<close>
  The argument is known by the attributes the function asks for: each of \<open>raw\<close>,
  \<open>multi_items()\<close> and \<open>items()\<close> is there (\<open>Some\<close>) or not. A name or a value is \<open>bytes\<close> or
  \<open>str\<close>, and \<open>str(value)\<close> of a \<open>str\<close> is the \<open>str\<close>.
\<close>

datatype field = Bytes bytes | Str str

record headers_object =
  attr_raw :: "(field \<times> field) list option"
  attr_multi_items :: "(field \<times> field) list option"
  attr_items :: "(field \<times> field) list option"

fun to_str :: "field \<Rightarrow> str" where
  "to_str (Bytes v) = latin1_decode v"
| "to_str (Str v) = v"

definition headers_to_list :: "headers_object \<Rightarrow> (str \<times> str) list list" where
  "headers_to_list headers =
     map (\<lambda>(name, v). [(ustr ''name'', to_str name), (ustr ''value'', to_str v)])
       (case attr_raw headers of
          Some items \<Rightarrow> items
        | None \<Rightarrow>
            (case attr_multi_items headers of
               Some items \<Rightarrow> items
             | None \<Rightarrow> (case attr_items headers of Some items \<Rightarrow> items | None \<Rightarrow> [])))"

section \<open>The framework: the request the handler receives\<close>

text \<open>
  What Starlette's \<open>Request\<close> gives the handler. \<open>req_headers\<close> is the list of
  \<open>(name, value)\<close> byte pairs of the connection, in the order received, which
  \<open>request.headers.raw\<close> returns; \<open>req_query_string\<close> is the bytes that
  \<open>request.query_params\<close> parses; \<open>req_client\<close> is \<open>request.client\<close>; \<open>req_scope\<close> is the
  dict \<open>request.scope\<close>; \<open>req_body\<close> is what \<open>await request.body()\<close> returns. The
  attributes \<open>url\<close>, \<open>base_url\<close>, \<open>url.path\<close>, \<open>path_params\<close> and \<open>cookies\<close> are taken as
  the framework computes them.
\<close>

record request =
  req_method :: str
  req_url :: str
  req_base_url :: str
  req_path :: str
  req_path_params :: dict
  req_query_string :: bytes
  req_headers :: "(bytes \<times> bytes) list"
  req_cookies :: "(str \<times> str) list"
  req_client :: "(pyval \<times> pyval) option"
  req_scope :: dict
  req_body :: bytes

text \<open>
  Starlette's \<open>Headers\<close>: it has \<open>raw\<close> and \<open>items()\<close> (the pairs decoded as Latin-1)
  and no \<open>multi_items\<close>. \<open>headers.get(key, default)\<close> compares the lower-cased key with
  the names as received and decodes the first value found.
\<close>

definition starlette_headers :: "(bytes \<times> bytes) list \<Rightarrow> headers_object" where
  "starlette_headers hs =
     \<lparr>attr_raw = Some (map (\<lambda>(k, v). (Bytes k, Bytes v)) hs),
      attr_multi_items = None,
      attr_items = Some (map (\<lambda>(k, v). (Str (latin1_decode k), Str (latin1_decode v))) hs)\<rparr>"

definition headers_get :: "(bytes \<times> bytes) list \<Rightarrow> bytes \<Rightarrow> str \<Rightarrow> str" where
  "headers_get hs key default_value =
     (case map_of hs key of None \<Rightarrow> default_value | Some v \<Rightarrow> latin1_decode v)"

text \<open>
  Starlette's \<open>QueryParams(scope["query_string"])\<close> keeps
  \<open>parse_qsl(value.decode("latin-1"), keep_blank_values=True)\<close>, and \<open>multi_items()\<close>
  returns that list.
\<close>

definition query_params_multi_items :: "bytes \<Rightarrow> (str \<times> str) list" where
  "query_params_multi_items value = parse_qsl (latin1_decode value)"

section \<open>The handler \<open>echo\<close>\<close>

text \<open>
  \<^verbatim>\<open>
  raw_body = await request.body()
  body_text = None
  if raw_body:
      try:
          body_text = raw_body.decode(request.headers.get("content-type", "utf-8"), errors="replace")
      except LookupError:
          body_text = raw_body.decode("utf-8", errors="replace")
  \<close>
  An exception other than \<open>LookupError\<close> leaves the handler, and so does one raised in
  the \<open>except\<close> branch.
\<close>

definition body_text :: "runtime \<Rightarrow> request \<Rightarrow> exn + str option" where
  "body_text rt request =
     (let raw_body = req_body request in
      if raw_body = [] then Inr None
      else (case decode rt (headers_get (req_headers request) ''content-type'' (ustr ''utf-8''))
                   raw_body of
              Inr t \<Rightarrow> Inr (Some t)
            | Inl e \<Rightarrow>
                if e = LookupError
                then map_sum id Some (decode rt (ustr ''utf-8'') raw_body)
                else Inl e))"


text \<open>
  \<^verbatim>\<open>
  json_payload = None
  if raw_body:
      try:
          json_payload = await request.json()
      except Exception:
          json_payload = None
  \<close>
\<close>

definition json_payload :: "runtime \<Rightarrow> request \<Rightarrow> pyval" where
  "json_payload rt request =
     (let raw_body = req_body request in
      if raw_body = [] then PNone
      else (case loads rt raw_body of Inr v \<Rightarrow> v | Inl e \<Rightarrow> PNone))"

text \<open>
  \<open>body_base64 = base64.b64encode(raw_body).decode("ascii") if raw_body else None\<close>.
  The encoder's output is ASCII, so every byte is its code point.
\<close>

definition body_base64 :: "request \<Rightarrow> str option" where
  "body_base64 request =
     (let raw_body = req_body request in
      if raw_body = [] then None else Some (map of_char (b64encode raw_body)))"

text \<open>
  \<open>server_host, server_port = (request.scope.get("server") or (None, None))\<close>: a value
  that is false gives the pair of \<open>None\<close>s, and any other value is unpacked, which
  needs an iterable of two items.
\<close>

text \<open>
  A float is false when it is zero: the double nearest to \<open>m * 10 ^ e\<close> is zero when
  \<open>m * 10 ^ e\<close> is at most \<open>2 ^ -1075\<close>, half of the least double above zero.
\<close>

fun is_zero :: "pyfloat \<Rightarrow> bool" where
  "is_zero (Float negative m e) =
     (if 0 \<le> e then m = 0 else m * 2 ^ 1075 \<le> 10 ^ nat (- e))"
| "is_zero _ = False"

fun truthy :: "pyval \<Rightarrow> bool" where
  "truthy PNone = False"
| "truthy (PBool b) = b"
| "truthy (PInt i) = (i \<noteq> 0)"
| "truthy (PFloat f) = (\<not> is_zero f)"
| "truthy (PStr s) = (s \<noteq> [])"
| "truthy (PBytes b) = (b \<noteq> [])"
| "truthy (PList xs) = (xs \<noteq> [])"
| "truthy (PTuple xs) = (xs \<noteq> [])"
| "truthy (PDict kvs) = (kvs \<noteq> [])"
| "truthy (PObject c) = True"

fun iterate :: "pyval \<Rightarrow> pyval list option" where
  "iterate (PList xs) = Some xs"
| "iterate (PTuple xs) = Some xs"
| "iterate (PStr s) = Some (map (\<lambda>c. PStr [c]) s)"
| "iterate (PBytes b) = Some (map (\<lambda>c. PInt (of_char c)) b)"
| "iterate (PDict kvs) = Some (map (\<lambda>(k, v). PStr k) kvs)"
| "iterate _ = None"

definition server_host_port :: "dict \<Rightarrow> exn + pyval \<times> pyval" where
  "server_host_port scope =
     (let server = dict_get scope (ustr ''server'') in
      if \<not> truthy server then Inr (PNone, PNone)
      else (case iterate server of
              None \<Rightarrow> Inl TypeError
            | Some [server_host, server_port] \<Rightarrow> Inr (server_host, server_port)
            | Some _ \<Rightarrow> Inl ValueError))"

text \<open>
  \<^verbatim>\<open>
  "query_string": request.scope.get("query_string", b"").decode("latin-1")
                  if isinstance(request.scope.get("query_string"), bytes)
                  else request.scope.get("query_string"),
  \<close>
\<close>

definition query_string_text :: "dict \<Rightarrow> pyval" where
  "query_string_text scope =
     (case dict_get scope (ustr ''query_string'') of
        PBytes b \<Rightarrow> PStr (latin1_decode b)
      | v \<Rightarrow> v)"

text \<open>
  The dict the handler returns, one field for each key; the keys of the inner dicts
  \<open>client\<close>, \<open>server\<close> and \<open>body\<close> are fields too.
\<close>

record response =
  r_method :: str
  r_http_version :: pyval
  r_scheme :: pyval
  r_url :: str
  r_base_url :: str
  r_path :: str
  r_path_params :: dict
  r_query_string :: pyval
  r_query_params :: "(str \<times> str) list"
  r_headers :: "(str \<times> str) list list"
  r_cookies :: "(str \<times> str) list"
  r_client_host :: pyval
  r_client_port :: pyval
  r_server_host :: pyval
  r_server_port :: pyval
  r_body_text :: "str option"
  r_body_base64 :: "str option"
  r_body_length :: nat
  r_json :: pyval
  r_scope :: dict

definition echo :: "runtime \<Rightarrow> request \<Rightarrow> exn + response" where
  "echo rt request =
     (case body_text rt request of
        Inl e \<Rightarrow> Inl e
      | Inr text \<Rightarrow>
          (case server_host_port (req_scope request) of
             Inl e \<Rightarrow> Inl e
           | Inr (server_host, server_port) \<Rightarrow>
               Inr \<lparr>r_method = req_method request,
                    r_http_version = dict_get (req_scope request) (ustr ''http_version''),
                    r_scheme = dict_get (req_scope request) (ustr ''scheme''),
                    r_url = req_url request,
                    r_base_url = req_base_url request,
                    r_path = req_path request,
                    r_path_params = req_path_params request,
                    r_query_string = query_string_text (req_scope request),
                    r_query_params = query_params_multi_items (req_query_string request),
                    r_headers = headers_to_list (starlette_headers (req_headers request)),
                    r_cookies = req_cookies request,
                    r_client_host = (case req_client request of None \<Rightarrow> PNone | Some (h, p) \<Rightarrow> h),
                    r_client_port = (case req_client request of None \<Rightarrow> PNone | Some (h, p) \<Rightarrow> p),
                    r_server_host = server_host,
                    r_server_port = server_port,
                    r_body_text = text,
                    r_body_base64 = body_base64 request,
                    r_body_length = length (req_body request),
                    r_json = json_payload rt request,
                    r_scope = normalize_scope (req_scope request)\<rparr>))"

section \<open>The route\<close>

text \<open>
  \<^verbatim>\<open>
  @app.api_route("/", methods=["GET", "POST", "PUT", "PATCH", "DELETE", "OPTIONS", "HEAD"])
  \<close>
  The route has no path parameter, so its path compiles to the regular expression
  \<open>^/$\<close>, which Starlette's \<open>Route.matches\<close> runs with \<open>re.match\<close> on the path of the
  request (Python's \<open>$\<close> also matches before a newline that ends the string). A path
  that matches with a method outside the list is a partial match, which the route
  answers with 405; a full match runs the handler, whose dict FastAPI sends with
  status 200.
\<close>

definition route_path :: str where
  "route_path = ustr ''/''"

definition route_methods :: "str list" where
  "route_methods =
     map ustr [''GET'', ''POST'', ''PUT'', ''PATCH'', ''DELETE'', ''OPTIONS'', ''HEAD'']"

datatype match = NONE | PARTIAL | FULL

definition matches :: "str \<Rightarrow> str \<Rightarrow> match" where
  "matches http_method path =
     (if path = route_path \<or> path = route_path @ [10]
      then (if http_method \<in> set route_methods then FULL else PARTIAL)
      else NONE)"

datatype outcome = Returned response | Raised exn | MethodNotAllowed | NotMatched

definition serve :: "runtime \<Rightarrow> str \<Rightarrow> str \<Rightarrow> request \<Rightarrow> outcome" where
  "serve rt http_method path request =
     (case matches http_method path of
        FULL \<Rightarrow> (case echo rt request of Inr r \<Rightarrow> Returned r | Inl e \<Rightarrow> Raised e)
      | PARTIAL \<Rightarrow> MethodNotAllowed
      | NONE \<Rightarrow> NotMatched)"

section \<open>Example requests\<close>

text \<open>
  The connection scope and the request that Starlette's test client builds for a
  method, a path, a query string, a list of headers and a body, with the entries
  Starlette and FastAPI add to the scope.
\<close>

definition test_scope :: "str \<Rightarrow> str \<Rightarrow> bytes \<Rightarrow> (bytes \<times> bytes) list \<Rightarrow> dict" where
  "test_scope http_method path query hs =
     [(ustr ''type'', PStr (ustr ''http'')),
      (ustr ''http_version'', PStr (ustr ''1.1'')),
      (ustr ''method'', PStr http_method),
      (ustr ''path'', PStr path),
      (ustr ''raw_path'', PBytes (map char_of path)),
      (ustr ''root_path'', PStr []),
      (ustr ''scheme'', PStr (ustr ''http'')),
      (ustr ''query_string'', PBytes query),
      (ustr ''headers'', PList (map (\<lambda>(k, v). PTuple [PBytes k, PBytes v]) hs)),
      (ustr ''client'', PTuple [PStr (ustr ''testclient''), PInt 50000]),
      (ustr ''server'', PTuple [PStr (ustr ''testserver''), PInt 80]),
      (ustr ''state'', PDict []),
      (ustr ''app'', PObject ''FastAPI'')]"

definition test_request ::
  "str \<Rightarrow> str \<Rightarrow> bytes \<Rightarrow> (bytes \<times> bytes) list \<Rightarrow> bytes \<Rightarrow> request" where
  "test_request http_method path query hs body =
     \<lparr>req_method = http_method,
      req_url = ustr ''http://testserver'' @ path
                @ (if query = [] then [] else ustr ''?'' @ latin1_decode query),
      req_base_url = ustr ''http://testserver/'',
      req_path = path,
      req_path_params = [],
      req_query_string = query,
      req_headers = hs,
      req_cookies = [],
      req_client = Some (PStr (ustr ''testclient''), PInt 50000),
      req_scope = test_scope http_method path query hs,
      req_body = body\<rparr>"

text \<open>\<open>GET /?k=1&k=2\<close> with the headers \<open>X-Tag: a\<close> and \<open>X-Tag: b\<close> and no body.\<close>

definition get_request :: request where
  "get_request =
     test_request (ustr ''GET'') (ustr ''/'') ''k=1&k=2''
       [(''x-tag'', ''a''), (''x-tag'', ''b'')] []"

definition example_scope :: dict where
  "example_scope = req_scope get_request"


text \<open>\<open>POST /\<close> with a body and, when given, a Content-Type header.\<close>

definition post_request :: "bytes option \<Rightarrow> bytes \<Rightarrow> request" where
  "post_request content_type body =
     test_request (ustr ''POST'') (ustr ''/'') []
       (case content_type of None \<Rightarrow> [] | Some v \<Rightarrow> [(''content-type'', v)]) body"

section \<open>Properties of \<open>_normalize_scope\<close>\<close>

lemma normalize_scope_loop_lookup:
  "distinct (map fst scope) \<Longrightarrow>
   map_of (normalize_scope_loop scope serialisable) k =
     (case map_of scope k of
        None \<Rightarrow> map_of serialisable k
      | Some v \<Rightarrow> (case kept k v of None \<Rightarrow> map_of serialisable k | Some w \<Rightarrow> Some w))"
proof (induction scope arbitrary: serialisable k)
  case Nil
  show ?case by simp
next
  case (Cons entry rest)
  obtain key "value" where entry: "entry = (key, value)"
    by (cases entry)
  from Cons.prems entry have fresh: "map_of rest key = None" and rest: "distinct (map fst rest)"
    by (auto simp: map_of_eq_None_iff)
  note IH = Cons.IH [OF rest]
  show ?case
  proof (cases "k = key")
    case True
    with fresh show ?thesis
      unfolding entry
      by (cases "value") (simp_all add: IH kept_def update_conv')
  next
    case False
    then show ?thesis
      unfolding entry
      by (cases "value") (simp_all add: IH update_conv' split: option.splits)
  qed
qed

text \<open>
  C9, as amended. For a scope (a dict: its keys are distinct), the snapshot has exactly
  the entries whose key is not one of the six skipped keys and whose value is a scalar
  (str, int, float, bool, None) or a list or tuple of scalars, of one type or of several;
  a scalar is kept as it is and a sequence is kept as a list. Everything else is dropped.
\<close>

theorem normalize_scope_retains:
  "distinct (map fst scope) \<Longrightarrow>
   map_of (normalize_scope scope) k =
     (case map_of scope k of None \<Rightarrow> None | Some v \<Rightarrow> kept k v)"
  by (simp add: normalize_scope_def normalize_scope_loop_lookup split: option.splits)

theorem normalize_scope_retains_witness:
  "distinct (map fst example_scope) \<and>
   map_of (normalize_scope example_scope) (ustr ''server'')
     = Some (PList [PStr (ustr ''testserver''), PInt 80]) \<and>
   map_of (normalize_scope example_scope) (ustr ''scheme'') = Some (PStr (ustr ''http'')) \<and>
   map_of (normalize_scope example_scope) (ustr ''query_string'') = None \<and>
   map_of (normalize_scope example_scope) (ustr ''state'') = None \<and>
   map_of (normalize_scope example_scope) (ustr ''app'') = None"
proof -
  have d: "distinct (map fst example_scope)"
    by (simp add: example_scope_def get_request_def test_request_def test_scope_def ustr_def)
  show ?thesis
    using d
      normalize_scope_retains [OF d, of "ustr ''server''"]
      normalize_scope_retains [OF d, of "ustr ''scheme''"]
      normalize_scope_retains [OF d, of "ustr ''query_string''"]
      normalize_scope_retains [OF d, of "ustr ''state''"]
      normalize_scope_retains [OF d, of "ustr ''app''"]
    by (simp add: example_scope_def get_request_def test_request_def test_scope_def ustr_def kept_def
        skipped_keys_def)
qed

text \<open>
  C9, as the specification states it, fails: the \<open>client\<close> entry of a scope is the tuple
  of a host (a str) and a port (an int), which is not a homogeneous sequence, and the
  snapshot retains it.
\<close>

theorem normalize_scope_mixed_sequence_counterexample:
  "map_of example_scope (ustr ''client'')
     = Some (PTuple [PStr (ustr ''testclient''), PInt 50000]) \<and>
   \<not> spec_retained (ustr ''client'') (PTuple [PStr (ustr ''testclient''), PInt 50000]) \<and>
   map_of (normalize_scope example_scope) (ustr ''client'')
     = Some (PList [PStr (ustr ''testclient''), PInt 50000])"
  by (simp add: example_scope_def get_request_def test_request_def test_scope_def ustr_def
      normalize_scope_def skipped_keys_def spec_retained_def homogeneous_def)

section \<open>Properties of the handler\<close>

lemma echo_fields:
  "echo rt request = Inr r \<Longrightarrow>
   body_text rt request = Inr (r_body_text r) \<and>
   r_body_base64 r = body_base64 request \<and>
   r_body_length r = length (req_body request) \<and>
   r_json r = json_payload rt request \<and>
   r_headers r = headers_to_list (starlette_headers (req_headers request)) \<and>
   r_query_params r = query_params_multi_items (req_query_string request) \<and>
   r_scope r = normalize_scope (req_scope request)"
  by (auto simp: echo_def split: sum.splits prod.splits)

lemma echo_returns:
  "body_text rt request = Inr t \<Longrightarrow> server_host_port (req_scope request) = Inr sp \<Longrightarrow>
   \<exists>r. echo rt request = Inr r"
  by (cases sp) (simp add: echo_def)

lemma echo_raises:
  "echo rt request = Inl e \<longleftrightarrow>
   body_text rt request = Inl e \<or>
   (\<exists>t. body_text rt request = Inr t) \<and> server_host_port (req_scope request) = Inl e"
  by (auto simp: echo_def split: sum.splits prod.splits)

lemma body_text_empty: "req_body request = [] \<Longrightarrow> body_text rt request = Inr None"
  by (simp add: body_text_def)


lemma test_server:
  "server_host_port (test_scope m p q hs) = Inr (PStr (ustr ''testserver''), PInt 80)"
  by (simp add: server_host_port_def test_scope_def dict_get_def ustr_def)


lemma latin1_decode_eq: "latin1_decode raw = map of_char raw"
  by (simp add: latin1_decode_def decode_replace_def latin1_units_def byte_values_def comp_def)

lemma latin1_decode_inj: "latin1_decode a = latin1_decode b \<Longrightarrow> a = b"
proof -
  have "inj (of_char :: char \<Rightarrow> nat)" by (rule inj_of_char)
  then have "inj (map (of_char :: char \<Rightarrow> nat))" by simp
  moreover assume "latin1_decode a = latin1_decode b"
  then have "map (of_char :: char \<Rightarrow> nat) a = map of_char b"
    by (simp add: latin1_decode_eq)
  ultimately show ?thesis by (simp add: inj_eq)
qed

lemma headers_to_list_starlette:
  "headers_to_list (starlette_headers hs) =
     map (\<lambda>(k, v). [(ustr ''name'', latin1_decode k), (ustr ''value'', latin1_decode v)]) hs"
  by (simp add: headers_to_list_def starlette_headers_def split_def comp_def)

text \<open>
  C7. The echoed \<open>headers\<close> list has one \<open>{name, value}\<close> entry for each header of the
  request, in the order received. Two headers with the same name and different values,
  at the places \<open>i < j\<close>, are the separate entries \<open>i\<close> and \<open>j\<close> of the list, with their own
  values: neither is collapsed into the other or overwritten.
\<close>

theorem echo_headers_duplicates:
  assumes "echo rt request = Inr r"
    and "i < j" and "j < length (req_headers request)"
    and "req_headers request ! i = (n, v1)" and "req_headers request ! j = (n, v2)"
    and "v1 \<noteq> v2"
  shows "r_headers r =
           map (\<lambda>(k, v). [(ustr ''name'', latin1_decode k), (ustr ''value'', latin1_decode v)])
             (req_headers request) \<and>
         r_headers r ! i = [(ustr ''name'', latin1_decode n), (ustr ''value'', latin1_decode v1)] \<and>
         r_headers r ! j = [(ustr ''name'', latin1_decode n), (ustr ''value'', latin1_decode v2)] \<and>
         r_headers r ! i \<noteq> r_headers r ! j"
proof -
  from echo_fields [OF assms(1)] have eq: "r_headers r =
      map (\<lambda>(k, v). [(ustr ''name'', latin1_decode k), (ustr ''value'', latin1_decode v)])
        (req_headers request)"
    by (simp add: headers_to_list_starlette)
  from assms(2,3) have i: "i < length (req_headers request)" by simp
  from assms(6) have ne: "latin1_decode v1 \<noteq> latin1_decode v2"
    using latin1_decode_inj by blast
  from eq i assms(3,4,5) ne show ?thesis by simp
qed

theorem echo_headers_duplicates_witness:
  "(\<exists>r. echo cpython get_request = Inr r \<and>
        r_headers r = [[(ustr ''name'', ustr ''x-tag''), (ustr ''value'', ustr ''a'')],
                       [(ustr ''name'', ustr ''x-tag''), (ustr ''value'', ustr ''b'')]]) \<and>
   (0::nat) < 1 \<and> 1 < length (req_headers get_request) \<and>
   req_headers get_request ! 0 = (''x-tag'', ''a'') \<and>
   req_headers get_request ! 1 = (''x-tag'', ''b'') \<and> ''a'' \<noteq> ''b''"
proof -
  have b: "req_body get_request = []"
    by (simp add: get_request_def test_request_def)
  have s: "server_host_port (req_scope get_request) = Inr (PStr (ustr ''testserver''), PInt 80)"
    by (simp add: get_request_def test_request_def test_server)
  from echo_returns [OF body_text_empty [OF b] s]
  obtain r where r: "echo cpython get_request = Inr r" ..
  have h: "req_headers get_request = [(''x-tag'', ''a''), (''x-tag'', ''b'')]"
    by (simp add: get_request_def test_request_def)
  from echo_headers_duplicates [OF r, of 0 1 "''x-tag''" "''a''" "''b''"] h
  have "r_headers r = [[(ustr ''name'', ustr ''x-tag''), (ustr ''value'', ustr ''a'')],
                       [(ustr ''name'', ustr ''x-tag''), (ustr ''value'', ustr ''b'')]]"
    by (simp add: latin1_decode_eq ustr_def)
  with r h show ?thesis by auto
qed





lemma test_request_server:
  "server_host_port (req_scope (test_request m p q hs b))
     = Inr (PStr (ustr ''testserver''), PInt 80)"
  by (simp add: test_request_def test_server)

lemma post_request_server:
  "server_host_port (req_scope (post_request ct b)) = Inr (PStr (ustr ''testserver''), PInt 80)"
  by (simp add: post_request_def test_request_server)

lemma post_request_body: "req_body (post_request ct b) = b"
  by (simp add: post_request_def test_request_def)



lemma cpython_loads: "loads cpython = json_loads"
  by (simp add: cpython_def)


lemmas utf8_eval = utf8_replace_def decode_replace_def decode_strict_def byte_values_def
  utf8_unit_def is_continuation_def




text \<open>
  Two more facts on the decoding step. The handler gives the whole value of the header
  to the runtime as the codec's name, so a \<open>charset\<close> parameter is never read: a body in
  Latin-1 announced as \<open>text/plain; charset=latin-1\<close> is decoded as UTF-8. And the step
  catches \<open>LookupError\<close> only: with \<open>Content-Type: undefined\<close> the codec raises
  \<open>UnicodeError\<close>, which leaves the handler.
\<close>

lemma body_text_charset_parameter:
  "body_text cpython (post_request (Some ''text/plain; charset=latin-1'') [CHR 0xE9])
     = Inr (Some [0xFFFD])"
  by (simp add: body_text_def headers_get_def post_request_def test_request_def cpython_def
      bytes_decode_def codec_lookup_def latin1_decode_eq ustr_def utf8_eval)

lemma echo_undefined_codec_raises:
  "body_text cpython (post_request (Some ''undefined'') ''x'') = Inl UnicodeError \<and>
   echo cpython (post_request (Some ''undefined'') ''x'') = Inl UnicodeError \<and>
   serve cpython (ustr ''POST'') (ustr ''/'') (post_request (Some ''undefined'') ''x'')
     = Raised UnicodeError"
proof -
  have b: "body_text cpython (post_request (Some ''undefined'') ''x'') = Inl UnicodeError"
    by (simp add: body_text_def headers_get_def post_request_def test_request_def cpython_def
        bytes_decode_def codec_lookup_def latin1_decode_eq ustr_def)
  then have e: "echo cpython (post_request (Some ''undefined'') ''x'') = Inl UnicodeError"
    by (simp add: echo_raises)
  have "matches (ustr ''POST'') (ustr ''/'') = FULL"
    by (simp add: matches_def route_path_def route_methods_def ustr_def)
  with b e show ?thesis by (simp add: serve_def)
qed

lemma json_payload_headers:
  "json_payload rt (request\<lparr>req_headers := hs\<rparr>) = json_payload rt request"
  by (simp add: json_payload_def)












lemmas json_eval = json_loads_def valid_json_def scan_def utf8_eval ustr_def is_space_def
  is_digit_def number_char_def number_token_def digits_value_def simple_escape_def hex4_def
  hex_digit_def surrogate_pair_def json_token_def python_token_def emit_def start_value_def
  close_value_def step_def Let_def


lemma json_loads_x: "json_loads ''{\"x\":1}'' = Inr (PDict [(ustr ''x'', PInt 1)])"
  by (simp add: json_eval)

lemma json_loads_null: "json_loads ''null'' = Inr PNone"
  by (simp add: json_eval)

lemma json_loads_not_json: "json_loads ''not-json'' = Inl JSONDecodeError"
  by (simp add: json_eval)

lemma body_text_ascii_body:
  "body_text cpython (post_request None ''not-json'') = Inr (Some (ustr ''not-json''))"
  by (simp add: body_text_def headers_get_def post_request_def test_request_def cpython_def
      bytes_decode_def codec_lookup_def ustr_def utf8_eval)



text \<open>
  C4, as amended. For \<open>POST /\<close> with the body \<open>{"x":1}\<close> and
  \<open>Content-Type: application/json\<close>, the handler returns with \<open>json\<close> the dict
  \<open>{"x": 1}\<close>, \<open>body.text\<close> the string \<open>{"x":1}\<close> and \<open>body.length\<close> 7, the number of
  bytes of the body.
\<close>

theorem post_json_scenario:
  "map_sum id (\<lambda>r. (r_json r, r_body_text r, r_body_length r))
     (echo cpython (post_request (Some ''application/json'') ''{\"x\":1}''))
   = Inr (PDict [(ustr ''x'', PInt 1)], Some (ustr ''{\"x\":1}''), 7)"
proof -
  let ?request = "post_request (Some ''application/json'') ''{\"x\":1}''"
  have t: "body_text cpython ?request = Inr (Some (ustr ''{\"x\":1}''))"
    by (simp add: body_text_def headers_get_def post_request_def test_request_def cpython_def
        bytes_decode_def codec_lookup_def latin1_decode_eq ustr_def utf8_eval)
  from echo_returns [OF t post_request_server]
  obtain r where r: "echo cpython ?request = Inr r" ..
  from echo_fields [OF r] t have "r_body_text r = Some (ustr ''{\"x\":1}'')"
    and "r_body_length r = 7"
    and "r_json r = PDict [(ustr ''x'', PInt 1)]"
    by (simp_all add: post_request_body json_payload_def cpython_loads json_loads_x)
  with r show ?thesis by simp
qed

text \<open>
  C4, as the specification states it, fails: the body has seven bytes, so
  \<open>body.length\<close> is not 8.
\<close>

theorem post_json_scenario_length_counterexample:
  "map_sum id r_body_length (echo cpython (post_request (Some ''application/json'') ''{\"x\":1}''))
   \<noteq> Inr 8"
proof -
  let ?request = "post_request (Some ''application/json'') ''{\"x\":1}''"
  have t: "body_text cpython ?request = Inr (Some (ustr ''{\"x\":1}''))"
    by (simp add: body_text_def headers_get_def post_request_def test_request_def cpython_def
        bytes_decode_def codec_lookup_def latin1_decode_eq ustr_def utf8_eval)
  from echo_returns [OF t post_request_server]
  obtain r where r: "echo cpython ?request = Inr r" ..
  from echo_fields [OF r] have "r_body_length r = 7"
    by (simp add: post_request_body)
  with r show ?thesis by simp
qed

text \<open>
  C10. When the body is JSON that parses to \<open>None\<close> (the text \<open>null\<close>), the echoed
  \<open>json\<close> is \<open>None\<close>, the value it has for a body that does not parse: the \<open>json\<close>
  fields of the two responses are equal.
\<close>

theorem json_null_indistinguishable:
  assumes "req_body a \<noteq> []" and "req_body b \<noteq> []"
    and "loads rt (req_body a) = Inr PNone" and "loads rt (req_body b) = Inl e"
    and "echo rt a = Inr ra" and "echo rt b = Inr rb"
  shows "r_json ra = PNone \<and> r_json rb = r_json ra"
  using assms echo_fields [OF assms(5)] echo_fields [OF assms(6)]
  by (simp add: json_payload_def)

lemma body_text_null_body:
  "body_text cpython (post_request None ''null'') = Inr (Some (ustr ''null''))"
  by (simp add: body_text_def headers_get_def post_request_def test_request_def cpython_def
      bytes_decode_def codec_lookup_def ustr_def utf8_eval)

theorem json_null_indistinguishable_witness:
  "req_body (post_request None ''null'') \<noteq> [] \<and>
   req_body (post_request None ''not-json'') \<noteq> [] \<and>
   loads cpython (req_body (post_request None ''null'')) = Inr PNone \<and>
   loads cpython (req_body (post_request None ''not-json'')) = Inl JSONDecodeError \<and>
   map_sum id r_json (echo cpython (post_request None ''null'')) = Inr PNone \<and>
   map_sum id r_json (echo cpython (post_request None ''not-json'')) = Inr PNone"
proof -
  have a: "req_body (post_request None ''null'') \<noteq> []"
    and b: "req_body (post_request None ''not-json'') \<noteq> []"
    by (simp_all add: post_request_body)
  have la: "loads cpython (req_body (post_request None ''null'')) = Inr PNone"
    by (simp add: post_request_body cpython_loads json_loads_null)
  have lb: "loads cpython (req_body (post_request None ''not-json'')) = Inl JSONDecodeError"
    by (simp add: post_request_body cpython_loads json_loads_not_json)
  from echo_returns [OF body_text_null_body post_request_server]
  obtain ra where ra: "echo cpython (post_request None ''null'') = Inr ra" ..
  from echo_returns [OF body_text_ascii_body post_request_server]
  obtain rb where rb: "echo cpython (post_request None ''not-json'') = Inr rb" ..
  from json_null_indistinguishable [OF a b la lb ra rb] a b la lb ra rb
  show ?thesis by simp
qed


lemma table_b2a_base64_values: "map of_char table_b2a_base64 = map b2a_value [0..<64]"
  by (simp add: table_b2a_base64_def b2a_value_def upt_rec)

lemma of_char_b2a: "i < 64 \<Longrightarrow> of_char (b2a i) = b2a_value i"
proof -
  assume i: "i < 64"
  have len: "length table_b2a_base64 = 64"
    by (simp add: table_b2a_base64_def)
  have "of_char (b2a i) = map of_char table_b2a_base64 ! i"
    using i len by (simp add: b2a_def)
  also have "\<dots> = b2a_value i"
    using i by (simp add: table_b2a_base64_values del: upt.simps)
  finally show ?thesis .
qed

lemma a2b_b2a: "i < 64 \<Longrightarrow> a2b (of_char (b2a i)) = Some i"
  by (auto simp: of_char_b2a a2b_def b2a_value_def)

lemma b2a_not_pad: "i < 64 \<Longrightarrow> of_char (b2a i) \<noteq> (61::nat)"
  by (auto simp: of_char_b2a b2a_value_def)

lemma digits:
  fixes x y n :: nat
  assumes "y < n"
  shows "(x * n + y) div n = x" and "(x * n + y) mod n = y"
  using assms by simp_all

lemma sextets_bound:
  fixes a b c :: nat
  assumes "a < 256" and "b < 256" and "c < 256"
  shows "a div 4 < 64" and "a mod 4 * 16 + b div 16 < 64"
    and "b mod 16 * 4 + c div 64 < 64" and "c mod 64 < 64"
proof -
  have "a mod 4 < 4" and "b div 16 < 16" and "b mod 16 < 16" and "c div 64 < 4"
    using assms by (simp_all add: less_mult_imp_div_less)
  then show "a mod 4 * 16 + b div 16 < 64" and "b mod 16 * 4 + c div 64 < 64"
    by linarith+
  show "a div 4 < 64" using assms by (simp add: less_mult_imp_div_less)
  show "c mod 64 < 64" by simp
qed

lemma sextets_join:
  fixes a b c :: nat
  assumes "b < 256" and "c < 256"
  shows "a div 4 * 4 + (a mod 4 * 16 + b div 16) div 16 = a"
    and "(a mod 4 * 16 + b div 16) mod 16 * 16 + (b mod 16 * 4 + c div 64) div 4 = b"
    and "(b mod 16 * 4 + c div 64) mod 4 * 64 + c mod 64 = c"
proof -
  have s: "b div 16 < 16" and u: "c div 64 < 4"
    using assms by (simp_all add: less_mult_imp_div_less)
  show "a div 4 * 4 + (a mod 4 * 16 + b div 16) div 16 = a"
    using s by (simp add: digits)
  show "(a mod 4 * 16 + b div 16) mod 16 * 16 + (b mod 16 * 4 + c div 64) div 4 = b"
    using s u by (simp add: digits)
  show "(b mod 16 * 4 + c div 64) mod 4 * 64 + c mod 64 = c"
    using u by (simp add: digits)
qed

lemma b64decode_group:
  assumes "a2b c0 = Some i0" and "a2b c1 = Some i1" and "a2b c2 = Some i2"
    and "a2b c3 = Some i3" and "c2 \<noteq> 61" and "c3 \<noteq> 61" and "b64decode rest = Some decoded"
  shows "b64decode (c0 # c1 # c2 # c3 # rest) =
           Some (char_of (i0 * 4 + i1 div 16) # char_of (i1 mod 16 * 16 + i2 div 4)
                 # char_of (i2 mod 4 * 64 + i3) # decoded)"
  using assms by simp

lemma b64decode_b64encode: "b64decode (map of_char (b64encode raw_body)) = Some raw_body"
proof (induction raw_body rule: b64encode.induct)
  case 1
  show ?case by simp
next
  case (2 a)
  let ?a = "of_char a :: nat"
  have a: "?a < 256" by simp
  note bound = sextets_bound [OF a, of 0 0, simplified]
  note join = sextets_join(1) [of 0 0 ?a, simplified]
  show ?case
    by (simp add: a2b_b2a bound join)
next
  case (3 a b)
  let ?a = "of_char a :: nat" and ?b = "of_char b :: nat"
  have a: "?a < 256" and b: "?b < 256" by simp_all
  note bound = sextets_bound [OF a b, of 0, simplified]
  note join = sextets_join(1,2) [OF b, of 0 ?a, simplified]
  show ?case
    by (simp add: a2b_b2a b2a_not_pad bound join)
next
  case (4 a b c rest)
  let ?a = "of_char a :: nat" and ?b = "of_char b :: nat" and ?c = "of_char c :: nat"
  have a: "?a < 256" and b: "?b < 256" and c: "?c < 256" by simp_all
  define i0 i1 i2 i3 where "i0 = ?a div 4" and "i1 = ?a mod 4 * 16 + ?b div 16"
    and "i2 = ?b mod 16 * 4 + ?c div 64" and "i3 = ?c mod 64"
  note i_defs = this
  from sextets_bound [OF a b c]
  have bound: "i0 < 64" "i1 < 64" "i2 < 64" "i3 < 64"
    by (simp_all only: i_defs)
  from sextets_join(1,2) [OF b c, of ?a] sextets_join(3) [OF b c]
  have join: "i0 * 4 + i1 div 16 = ?a" "i1 mod 16 * 16 + i2 div 4 = ?b" "i2 mod 4 * 64 + i3 = ?c"
    by (simp_all only: i_defs)
  have encoded: "map of_char (b64encode (a # b # c # rest)) =
          of_char (b2a i0) # of_char (b2a i1) # of_char (b2a i2) # of_char (b2a i3)
          # map of_char (b64encode rest)"
    by (simp add: i_defs)
  have "b64decode (of_char (b2a i0) # of_char (b2a i1) # of_char (b2a i2) # of_char (b2a i3)
                   # map of_char (b64encode rest)) =
          Some (char_of (i0 * 4 + i1 div 16) # char_of (i1 mod 16 * 16 + i2 div 4)
                # char_of (i2 mod 4 * 64 + i3) # rest)"
    using bound "4.IH" by (intro b64decode_group a2b_b2a b2a_not_pad)
  also have "\<dots> = Some (a # b # c # rest)"
    by (simp only: join char_of_char)
  finally show ?case
    by (simp only: encoded)
qed

text \<open>
  C6. For every request with a body, of any bytes, the echoed \<open>body.base64\<close> is a
  string whose standard base64 decoding is the body.
\<close>

theorem echo_base64_round_trip:
  assumes "req_body request \<noteq> []" and "echo rt request = Inr r"
  shows "\<exists>s. r_body_base64 r = Some s \<and> b64decode s = Some (req_body request)"
  using assms echo_fields [OF assms(2)] by (simp add: body_base64_def b64decode_b64encode)


theorem echo_base64_round_trip_witness:
  "req_body (post_request None [CHR 0xFF, CHR 0xFE, CHR 0x00, CHR 0x80]) \<noteq> [] \<and>
   map_sum id r_body_base64 (echo cpython (post_request None [CHR 0xFF, CHR 0xFE, CHR 0x00, CHR 0x80]))
     = Inr (Some (ustr ''//4AgA=='')) \<and>
   b64decode (ustr ''//4AgA=='') = Some [CHR 0xFF, CHR 0xFE, CHR 0x00, CHR 0x80]"
proof -
  let ?request = "post_request None [CHR 0xFF, CHR 0xFE, CHR 0x00, CHR 0x80]"
  have b: "req_body ?request \<noteq> []"
    by (simp add: post_request_body)
  have t: "body_text cpython ?request = Inr (Some [0xFFFD, 0xFFFD, 0, 0xFFFD])"
    by (simp add: body_text_def headers_get_def post_request_def test_request_def cpython_def
        bytes_decode_def codec_lookup_def ustr_def utf8_eval)
  from echo_returns [OF t post_request_server]
  obtain r where r: "echo cpython ?request = Inr r" ..
  from echo_fields [OF r] have e: "r_body_base64 r = Some (ustr ''//4AgA=='')"
    by (simp add: body_base64_def post_request_body b2a_def table_b2a_base64_def ustr_def)
  from echo_base64_round_trip [OF b r] b r e show ?thesis
    by (simp add: post_request_body)
qed

lemma split_no_sep: "sep \<notin> set s \<Longrightarrow> split sep s = [s]"
  by (induction s) auto

lemma split_append_sep:
  "sep \<notin> set s \<Longrightarrow> split sep (s @ sep # rest) = s # split sep rest"
  by (induction s) auto

lemma split_once_pair: "sep \<notin> set k \<Longrightarrow> split_once sep (k @ sep # v) = (k, v)"
  by (induction k) (auto simp: split_once_def)

lemma replace_plus_plain: "plain s \<Longrightarrow> replace_plus s = s"
  by (simp add: replace_plus_def plain_def map_idI)

lemma unquote_plain: "plain s \<Longrightarrow> unquote s = s"
  by (auto simp: unquote_def plain_def)

lemma parse_qsl_fields: "parse_qsl qs = concat (map parse_field (split 38 qs))"
  by (simp add: parse_qsl_def)

lemma parse_field_pair: "plain k \<Longrightarrow> plain v \<Longrightarrow> parse_field (k @ 61 # v) = [(k, v)]"
proof -
  assume k: "plain k" and v: "plain v"
  then have "61 \<notin> set k" by (auto simp: plain_def)
  then have "split_once 61 (k @ 61 # v) = (k, v)" by (rule split_once_pair)
  with k v show ?thesis
    by (simp add: parse_field_def replace_plus_plain unquote_plain)
qed

lemma field_no_ampersand: "plain k \<Longrightarrow> plain v \<Longrightarrow> 38 \<notin> set (k @ 61 # v)"
  by (auto simp: plain_def)

lemma parse_fields_of_pairs:
  "pairs \<noteq> [] \<Longrightarrow> \<forall>(k, v) \<in> set pairs. plain k \<and> plain v \<Longrightarrow>
   concat (map parse_field (split 38 (query_of_pairs pairs))) = pairs"
proof (induction pairs rule: query_of_pairs.induct)
  case 1
  then show ?case by simp
next
  case (2 k v)
  then have k: "plain k" and v: "plain v" by simp_all
  from split_no_sep [OF field_no_ampersand [OF k v]] parse_field_pair [OF k v]
  show ?case by simp
next
  case (3 k v p ps)
  then have k: "plain k" and v: "plain v"
    and rest: "\<forall>(k, v) \<in> set (p # ps). plain k \<and> plain v"
    by simp_all
  have "query_of_pairs ((k, v) # p # ps) = (k @ 61 # v) @ 38 # query_of_pairs (p # ps)"
    by simp
  then have "split 38 (query_of_pairs ((k, v) # p # ps))
               = (k @ 61 # v) # split 38 (query_of_pairs (p # ps))"
    using split_append_sep [OF field_no_ampersand [OF k v]] by simp
  with parse_field_pair [OF k v] "3.IH" rest show ?case by simp
qed

lemma parse_qsl_of_pairs:
  "\<forall>(k, v) \<in> set pairs. plain k \<and> plain v \<Longrightarrow> parse_qsl (query_of_pairs pairs) = pairs"
proof (cases "pairs = []")
  case True
  then show ?thesis by (simp add: parse_qsl_def parse_field_def)
next
  case False
  assume "\<forall>(k, v) \<in> set pairs. plain k \<and> plain v"
  with False show ?thesis
    by (simp add: parse_qsl_fields parse_fields_of_pairs)
qed

text \<open>
  C8. When the query string of a request lists the pairs \<open>(k, v)\<close> as \<open>k=v\<close> joined by
  \<open>&\<close>, keys and values standing for themselves, the echoed \<open>query_params\<close> is that
  list of pairs: every pair is there, in the order written, a repeated key as often as
  it is written. For \<open>/?k=1&k=2\<close> it is \<open>[("k", "1"), ("k", "2")]\<close>.
\<close>

theorem echo_query_params_in_order:
  assumes "echo rt request = Inr r"
    and "latin1_decode (req_query_string request) = query_of_pairs pairs"
    and "\<forall>(k, v) \<in> set pairs. plain k \<and> plain v"
  shows "r_query_params r = pairs"
  using echo_fields [OF assms(1)] assms(2) parse_qsl_of_pairs [OF assms(3)]
  by (simp add: query_params_multi_items_def)

theorem echo_query_params_in_order_witness:
  "latin1_decode (req_query_string get_request)
     = query_of_pairs [(ustr ''k'', ustr ''1''), (ustr ''k'', ustr ''2'')] \<and>
   plain (ustr ''k'') \<and> plain (ustr ''1'') \<and> plain (ustr ''2'') \<and>
   map_sum id r_query_params (echo cpython get_request)
     = Inr [(ustr ''k'', ustr ''1''), (ustr ''k'', ustr ''2'')]"
proof -
  have b: "req_body get_request = []"
    by (simp add: get_request_def test_request_def)
  have s: "server_host_port (req_scope get_request) = Inr (PStr (ustr ''testserver''), PInt 80)"
    by (simp add: get_request_def test_request_def test_server)
  from echo_returns [OF body_text_empty [OF b] s]
  obtain r where r: "echo cpython get_request = Inr r" ..
  have q: "latin1_decode (req_query_string get_request)
             = query_of_pairs [(ustr ''k'', ustr ''1''), (ustr ''k'', ustr ''2'')]"
    by (simp add: get_request_def test_request_def latin1_decode_eq ustr_def)
  have p: "\<forall>(k, v) \<in> set [(ustr ''k'', ustr ''1''), (ustr ''k'', ustr ''2'')]. plain k \<and> plain v"
    by (simp add: plain_def ustr_def)
  from echo_query_params_in_order [OF r q p] r q p show ?thesis by simp
qed


end
